theory Spec2Isabelle
  imports Complex_Main
begin

section \<open>Python values, errors and the calendar\<close>

text \<open>
  The application is a Django project. Its business logic lives in the methods of the
  models \<open>User\<close> and \<open>BloodRequest\<close> (\<open>users/models.py\<close>) and in two class-based views
  (\<open>users/views.py\<close>). Every method below takes the reading of the clock
  (\<open>timezone.now()\<close>) as an explicit argument, and returns either the exception it raises
  (\<open>Inl\<close>) or its value (\<open>Inr\<close>).
\<close>

datatype error =
    TypeError
  | AttributeError
  | DoesNotExist
  | MultipleObjectsReturned
  | IntegrityError

text \<open>Sequencing of computations that may raise.\<close>

definition bind_e :: "error + 'a \<Rightarrow> ('a \<Rightarrow> error + 'b) \<Rightarrow> error + 'b" where
  "bind_e m f = (case m of Inl e \<Rightarrow> Inl e | Inr x \<Rightarrow> f x)"

text \<open>
  A nullable field holds \<open>None\<close> or an object. Reading an attribute of \<open>None\<close> raises
  \<open>AttributeError\<close>; using \<open>None\<close> as an operand of \<open>-\<close>, \<open><=\<close>, \<open>>=\<close> or \<open>>\<close> raises
  \<open>TypeError\<close>.
\<close>

definition attr_of :: "'a option \<Rightarrow> error + 'a" where
  "attr_of v = (case v of None \<Rightarrow> Inl AttributeError | Some x \<Rightarrow> Inr x)"

definition operand :: "'a option \<Rightarrow> error + 'a" where
  "operand v = (case v of None \<Rightarrow> Inl TypeError | Some x \<Rightarrow> Inr x)"

text \<open>
  A Python \<open>float\<close> is a finite number, an infinity or a NaN. The finite ones are real
  numbers; the code only tests a float for truth and compares it with the integer 50,
  and both are exact.
\<close>

datatype pyfloat = Finite real | PosInf | NegInf | NaN

fun float_truthy :: "pyfloat \<Rightarrow> bool" where
  "float_truthy (Finite x) = (x \<noteq> 0)"
| "float_truthy PosInf = True"
| "float_truthy NegInf = True"
| "float_truthy NaN = True"

fun float_ge :: "pyfloat \<Rightarrow> int \<Rightarrow> bool" where
  "float_ge (Finite x) n = (real_of_int n \<le> x)"
| "float_ge PosInf n = True"
| "float_ge NegInf n = False"
| "float_ge NaN n = False"

fun float_lt :: "pyfloat \<Rightarrow> int \<Rightarrow> bool" where
  "float_lt (Finite x) n = (x < real_of_int n)"
| "float_lt PosInf n = False"
| "float_lt NegInf n = True"
| "float_lt NaN n = False"

text \<open>
  The values the methods return. An \<open>and\<close> chain returns its first falsy operand, or the
  last operand, so \<open>is_eligible_donor\<close> and \<open>can_accept\<close> may return \<open>None\<close>, a float or a
  string where a caller expects a boolean; callers only test the result for truth.
\<close>

datatype pyval =
    PyNone
  | PyBool bool
  | PyInt int
  | PyFloat pyfloat
  | PyStr string

fun truthy :: "pyval \<Rightarrow> bool" where
  "truthy PyNone = False"
| "truthy (PyBool b) = b"
| "truthy (PyInt n) = (n \<noteq> 0)"
| "truthy (PyFloat x) = float_truthy x"
| "truthy (PyStr s) = (s \<noteq> [])"

definition py_int_opt :: "int option \<Rightarrow> pyval" where
  "py_int_opt v = (case v of None \<Rightarrow> PyNone | Some n \<Rightarrow> PyInt n)"

definition py_float_opt :: "pyfloat option \<Rightarrow> pyval" where
  "py_float_opt v = (case v of None \<Rightarrow> PyNone | Some x \<Rightarrow> PyFloat x)"

text \<open>
  \<open>a and b\<close>: \<open>b\<close> is evaluated only when \<open>a\<close> is truthy, so an exception of \<open>b\<close> is
  raised only then.
\<close>

definition py_and :: "error + pyval \<Rightarrow> error + pyval \<Rightarrow> error + pyval" where
  "py_and a b = (case a of Inl e \<Rightarrow> Inl e | Inr v \<Rightarrow> if truthy v then b else Inr v)"

text \<open>The truth of a result: the method returned, and what it returned is truthy.\<close>

definition holds :: "error + pyval \<Rightarrow> bool" where
  "holds r = (case r of Inl e \<Rightarrow> False | Inr v \<Rightarrow> truthy v)"

text \<open>Comparison of tuples of integers, as Python compares them: lexicographically.\<close>

fun tuple_lt :: "int list \<Rightarrow> int list \<Rightarrow> bool" where
  "tuple_lt (x # xs) (y # ys) = (x < y \<or> (x = y \<and> tuple_lt xs ys))"
| "tuple_lt [] (y # ys) = True"
| "tuple_lt xs [] = False"

text \<open>
  \<open>datetime.date\<close> and \<open>datetime.datetime\<close> of the standard library. The number of days
  between two dates, \<open>(a - b).days\<close>, is the difference of their proleptic Gregorian
  ordinals (\<open>date.toordinal\<close>, day 1 being 0001-01-01).
\<close>

record date =
  year :: int
  month :: int
  day :: int

record datetime = date +
  hour :: int
  minute :: int
  second :: int
  microsecond :: int

definition is_leap :: "int \<Rightarrow> bool" where
  "is_leap y = (y mod 4 = 0 \<and> (y mod 100 \<noteq> 0 \<or> y mod 400 = 0))"

definition days_before_year :: "int \<Rightarrow> int" where
  "days_before_year y' =
     (let y = y' - 1 in y * 365 + y div 4 - y div 100 + y div 400)"

definition DAYS_IN_MONTH :: "int list" where
  "DAYS_IN_MONTH = [-1, 31, 28, 31, 30, 31, 30, 31, 31, 30, 31, 30, 31]"

definition DAYS_BEFORE_MONTH :: "int list" where
  "DAYS_BEFORE_MONTH = [-1, 0, 31, 59, 90, 120, 151, 181, 212, 243, 273, 304, 334]"

definition days_in_month :: "int \<Rightarrow> int \<Rightarrow> int" where
  "days_in_month y m =
     (if m = 2 \<and> is_leap y then 29 else DAYS_IN_MONTH ! nat m)"

definition days_before_month :: "int \<Rightarrow> int \<Rightarrow> int" where
  "days_before_month y m =
     DAYS_BEFORE_MONTH ! nat m + (if m > 2 \<and> is_leap y then 1 else 0)"

definition toordinal :: "'a date_scheme \<Rightarrow> int" where
  "toordinal d = days_before_year (year d) + days_before_month (year d) (month d) + day d"

text \<open>The dates Python can construct: \<open>date(y, m, d)\<close> raises \<open>ValueError\<close> on any other.\<close>

definition valid_date :: "'a date_scheme \<Rightarrow> bool" where
  "valid_date d =
     (1 \<le> year d \<and> year d \<le> 9999 \<and> 1 \<le> month d \<and> month d \<le> 12 \<and>
      1 \<le> day d \<and> day d \<le> days_in_month (year d) (month d))"

text \<open>\<open>datetime.date()\<close>: the date of a point in time.\<close>

definition date_of :: "datetime \<Rightarrow> date" where
  "date_of t = \<lparr>year = year t, month = month t, day = day t\<rparr>"

text \<open>
  \<open>a > b\<close> on two \<open>datetime\<close> objects of the same time zone (Django keeps them all in
  UTC) compares the tuples of their seven fields.
\<close>

definition datetime_key :: "datetime \<Rightarrow> int list" where
  "datetime_key t = [year t, month t, day t, hour t, minute t, second t, microsecond t]"

definition datetime_gt :: "datetime \<Rightarrow> datetime \<Rightarrow> bool" where
  "datetime_gt a b = tuple_lt (datetime_key b) (datetime_key a)"

section \<open>The models\<close>

subsection \<open>\<open>User\<close>\<close>

text \<open>
  The fields \<open>users/models.py\<close> declares for \<open>User\<close>, with the primary key. A field
  declared \<open>null=True\<close> is an option; a \<open>CharField\<close> or \<open>TextField\<close> declared only
  \<open>blank=True\<close> is a string, empty when not set. The verification token is a UUID, a
  number of 128 bits.
\<close>

record user =
  user_id :: nat
  full_name :: string
  email :: string
  phone_number :: "string option"
  date_of_birth :: "date option"
  gender :: string
  address :: string
  blood_group :: string
  weight :: "pyfloat option"
  last_donation_date :: "date option"
  medical_conditions :: string
  is_email_verified :: bool
  is_donor :: bool
  is_recipient :: bool
  is_available_for_donation :: bool
  email_verification_token :: nat
  email_verification_sent_at :: "datetime option"
  created_at :: datetime
  updated_at :: datetime

text \<open>
  \<open>User.can_donate\<close>, with \<open>today = timezone.now().date()\<close>. A date object is always
  truthy, so \<open>if self.last_donation_date\<close> tests the field against \<open>None\<close>.
\<close>

definition can_donate :: "user \<Rightarrow> date \<Rightarrow> error + bool" where
  "can_donate self today =
     (if \<not> is_donor self \<or> \<not> is_available_for_donation self then Inr False
      else if last_donation_date self \<noteq> None then
        bind_e (operand (last_donation_date self)) (\<lambda>last.
          let days_since_last_donation = toordinal today - toordinal last
          in Inr (days_since_last_donation \<ge> 90))
      else Inr True)"

text \<open>
  \<open>User.get_age\<close>: the difference of the years, less one when today's \<open>(month, day)\<close>
  comes before the birthday's.
\<close>

definition get_age :: "user \<Rightarrow> date \<Rightarrow> error + int option" where
  "get_age self today =
     (if date_of_birth self \<noteq> None then
        bind_e (attr_of (date_of_birth self)) (\<lambda>dob.
          Inr (Some (year today - year dob -
            (if tuple_lt [month today, day today] [month dob, day dob] then 1 else 0))))
      else Inr None)"

text \<open>
  \<open>User.is_eligible_donor\<close>. \<open>if not age\<close> is taken for \<open>None\<close> and for the age 0. The
  value returned is that of the chain
  \<open>18 <= age <= 65 and self.weight and self.weight >= 50 and self.blood_group and
  self.can_donate()\<close>.
\<close>

definition is_eligible_donor :: "user \<Rightarrow> date \<Rightarrow> error + pyval" where
  "is_eligible_donor self today =
     bind_e (get_age self today) (\<lambda>age.
       if \<not> truthy (py_int_opt age) then Inr (PyBool False)
       else
         py_and (bind_e (operand age) (\<lambda>a. Inr (PyBool (18 \<le> a \<and> a \<le> 65))))
        (py_and (Inr (py_float_opt (weight self)))
        (py_and (bind_e (operand (weight self)) (\<lambda>w. Inr (PyBool (float_ge w 50))))
        (py_and (Inr (PyStr (blood_group self)))
                (bind_e (can_donate self today) (\<lambda>b. Inr (PyBool b)))))))"

subsection \<open>\<open>BloodRequest\<close>\<close>

text \<open>
  \<open>requester\<close> is a foreign key to \<open>User\<close>: reading it gives the user's row.
  \<open>needed_by_date\<close> is not nullable in the table, but an instance that was never saved
  has \<open>None\<close> there, and \<open>is_expired\<close> tests for it.
\<close>

record blood_request =
  request_id :: nat
  requester :: user
  patient_name :: string
  blood_group_needed :: string
  units_needed :: nat
  urgency :: string
  needed_by_date :: "datetime option"
  status :: string
  is_public :: bool

text \<open>\<open>BloodRequest.is_expired\<close>, with \<open>now = timezone.now()\<close>.\<close>

definition is_expired :: "blood_request \<Rightarrow> datetime \<Rightarrow> error + bool" where
  "is_expired self now =
     (if needed_by_date self = None then Inr False
      else bind_e (operand (needed_by_date self)) (\<lambda>needed_by.
        Inr (datetime_gt now needed_by)))"

text \<open>
  Who makes a request to a view: nobody (\<open>None\<close>), Django's \<open>AnonymousUser\<close>, whose
  \<open>is_authenticated\<close> is false, or a \<open>User\<close>, whose \<open>is_authenticated\<close> is true. Two model
  instances are equal when their primary keys are.
\<close>

datatype principal = NoUser | AnonymousUser | Member user

text \<open>
  \<open>BloodRequest.can_accept\<close>. The first two equations are the guard
  \<open>if not user or not user.is_authenticated: return False\<close>; the third is the chain
  \<open>user != self.requester and user.is_eligible_donor() and
  user.blood_group == self.blood_group_needed and self.status == 'ACTIVE' and
  not self.is_expired()\<close>. The date of \<open>is_eligible_donor\<close> is that of the same clock.
\<close>

fun can_accept :: "blood_request \<Rightarrow> principal \<Rightarrow> datetime \<Rightarrow> error + pyval" where
  "can_accept self NoUser now = Inr (PyBool False)"
| "can_accept self AnonymousUser now = Inr (PyBool False)"
| "can_accept self (Member u) now =
     py_and (Inr (PyBool (user_id u \<noteq> user_id (requester self))))
    (py_and (is_eligible_donor u (date_of now))
    (py_and (Inr (PyBool (blood_group u = blood_group_needed self)))
    (py_and (Inr (PyBool (status self = ''ACTIVE'')))
            (bind_e (is_expired self now) (\<lambda>b. Inr (PyBool (\<not> b)))))))"

text \<open>
  \<open>BloodRequest.get_compatible_donors\<close>: the query
  \<open>User.objects.filter(...).exclude(id=self.requester.id)\<close> over the table of users.
\<close>

definition get_compatible_donors :: "user list \<Rightarrow> blood_request \<Rightarrow> user list" where
  "get_compatible_donors users self =
     filter (\<lambda>u. user_id u \<noteq> user_id (requester self))
       (filter (\<lambda>u. blood_group u = blood_group_needed self \<and> is_donor u = True \<and>
                    is_available_for_donation u = True \<and> is_email_verified u = True)
          users)"

subsection \<open>\<open>BloodRequestResponse\<close> and the database\<close>

text \<open>
  A row of \<open>BloodRequestResponse\<close>: the two foreign keys are the primary keys of the
  request and of the donor.
\<close>

record blood_request_response =
  blood_request_id :: nat
  donor_id :: nat
  response :: string
  message :: string
  donor_phone :: string
  preferred_contact_time :: string
  responded_at :: datetime

record database =
  users :: "user list"
  blood_requests :: "blood_request list"
  responses :: "blood_request_response list"

text \<open>
  \<open>Meta.unique_together = ['blood_request', 'donor']\<close>: the table refuses a row whose pair
  is already there, and the insertion raises \<open>IntegrityError\<close>.
\<close>

definition insert_response ::
  "blood_request_response list \<Rightarrow> blood_request_response \<Rightarrow> error + blood_request_response list"
where
  "insert_response table row =
     (if list_ex (\<lambda>x. blood_request_id x = blood_request_id row \<and> donor_id x = donor_id row) table
      then Inl IntegrityError
      else Inr (table @ [row]))"

section \<open>The views\<close>

subsection \<open>\<open>BloodRequestResponseCreateView\<close>\<close>

datatype http_method = GET | POST

text \<open>The fields of \<open>BloodRequestResponseForm\<close>, as posted.\<close>

record response_form =
  form_response :: string
  form_message :: string
  form_donor_phone :: string
  form_preferred_contact_time :: string

definition RESPONSE_CHOICES :: "string list" where
  "RESPONSE_CHOICES = [''ACCEPTED'', ''DECLINED'', ''COMPLETED'']"

text \<open>
  The form is valid when the response is one of the choices and the two short fields
  fit their columns (\<open>max_length\<close> 15 and 100).
\<close>

definition is_valid :: "response_form \<Rightarrow> bool" where
  "is_valid form =
     (form_response form \<in> set RESPONSE_CHOICES \<and>
      length (form_donor_phone form) \<le> 15 \<and>
      length (form_preferred_contact_time form) \<le> 100)"

datatype http_response =
    Http404
  | Redirect_cannot_respond
  | Redirect_already_responded
  | Redirect_login
  | Render_form
  | Redirect_success
  | Server_error error

text \<open>
  \<open>form_valid\<close>: the request and the donor are set on the instance, and the parent's
  \<open>form_valid\<close> saves it, which inserts the row.
\<close>

definition form_valid ::
  "database \<Rightarrow> blood_request \<Rightarrow> user \<Rightarrow> response_form \<Rightarrow> datetime \<Rightarrow> http_response \<times> database"
where
  "form_valid db req u form now =
     (let row = \<lparr>blood_request_id = request_id req, donor_id = user_id u,
                 response = form_response form, message = form_message form,
                 donor_phone = form_donor_phone form,
                 preferred_contact_time = form_preferred_contact_time form,
                 responded_at = now\<rparr>
      in case insert_response (responses db) row of
           Inl e \<Rightarrow> (Server_error e, db)
         | Inr table \<Rightarrow> (Redirect_success, db\<lparr>responses := table\<rparr>))"

text \<open>
  \<open>dispatch\<close>: the request is looked up by its primary key (\<open>get_object_or_404\<close>); a user
  who cannot accept it, or who has a response to it already, is redirected; any other is
  handed to the parent's \<open>dispatch\<close>, which sends a visitor who is not logged in to the
  login page, renders the form on GET and on an invalid POST, and calls \<open>form_valid\<close> on
  a valid POST.
\<close>

definition dispatch ::
  "database \<Rightarrow> principal \<Rightarrow> nat \<Rightarrow> http_method \<Rightarrow> response_form \<Rightarrow> datetime \<Rightarrow>
   http_response \<times> database"
where
  "dispatch db request_user pk method form now =
     (case find (\<lambda>r. request_id r = pk) (blood_requests db) of
        None \<Rightarrow> (Http404, db)
      | Some req \<Rightarrow>
          (case can_accept req request_user now of
             Inl e \<Rightarrow> (Server_error e, db)
           | Inr v \<Rightarrow>
               if \<not> truthy v then (Redirect_cannot_respond, db)
               else
                 (case request_user of
                    Member u \<Rightarrow>
                      if list_ex (\<lambda>x. blood_request_id x = request_id req \<and>
                                      donor_id x = user_id u) (responses db)
                      then (Redirect_already_responded, db)
                      else if method = POST \<and> is_valid form then form_valid db req u form now
                      else (Render_form, db)
                  | _ \<Rightarrow> (Redirect_login, db))))"

text \<open>
  The states of the table of responses the application reaches: it starts empty; a
  request to the view moves it; the admin site adds a row through the same table, under
  its uniqueness constraint, and deletes rows; the other tables change freely.
\<close>

inductive reachable :: "database \<Rightarrow> bool" where
  initial: "responses db = [] \<Longrightarrow> reachable db"
| view: "reachable db \<Longrightarrow> reachable (snd (dispatch db request_user pk method form now))"
| admin_add: "reachable db \<Longrightarrow> insert_response (responses db) row = Inr table \<Longrightarrow>
     reachable (db\<lparr>responses := table\<rparr>)"
| admin_delete: "reachable db \<Longrightarrow> reachable (db\<lparr>responses := filter keep (responses db)\<rparr>)"
| other_tables: "reachable db \<Longrightarrow> reachable (db\<lparr>users := us, blood_requests := reqs\<rparr>)"

text \<open>No two rows of the table have the same request and the same donor.\<close>

definition unique_together :: "blood_request_response list \<Rightarrow> bool" where
  "unique_together table = distinct (map (\<lambda>x. (blood_request_id x, donor_id x)) table)"

subsection \<open>\<open>EmailVerificationView\<close>\<close>

text \<open>
  \<open>User.objects.get(email_verification_token=token)\<close>: the one row with this token;
  \<open>DoesNotExist\<close> when there is none, \<open>MultipleObjectsReturned\<close> when there are several.
\<close>

definition objects_get :: "user list \<Rightarrow> nat \<Rightarrow> error + user" where
  "objects_get table token =
     (case filter (\<lambda>u. email_verification_token u = token) table of
        [] \<Rightarrow> Inl DoesNotExist
      | [u] \<Rightarrow> Inr u
      | u # v # rest \<Rightarrow> Inl MultipleObjectsReturned)"

text \<open>
  \<open>user.save()\<close>: the row of this primary key takes the instance's fields, and
  \<open>updated_at\<close>, declared \<open>auto_now=True\<close>, takes the time of the save.
\<close>

definition save :: "user list \<Rightarrow> user \<Rightarrow> datetime \<Rightarrow> user list" where
  "save table u now =
     map (\<lambda>row. if user_id row = user_id u then u\<lparr>updated_at := now\<rparr> else row) table"

datatype message_level = Msg_success | Msg_info | Msg_error

text \<open>What a request does besides answering: the saves and the flash messages, in order.\<close>

datatype effect = Saved nat | Flashed message_level

text \<open>
  \<open>EmailVerificationView.get\<close>. Only \<open>DoesNotExist\<close> is caught; the page is rendered after
  every branch that does not raise.
\<close>

definition email_verification_get ::
  "user list \<Rightarrow> nat \<Rightarrow> datetime \<Rightarrow> (error + unit) \<times> user list \<times> effect list"
where
  "email_verification_get table token now =
     (case objects_get table token of
        Inl e \<Rightarrow>
          if e = DoesNotExist then (Inr (), table, [Flashed Msg_error])
          else (Inl e, table, [])
      | Inr u \<Rightarrow>
          if \<not> is_email_verified u then
            (Inr (), save table (u\<lparr>is_email_verified := True\<rparr>) now,
             [Saved (user_id u), Flashed Msg_success])
          else (Inr (), table, [Flashed Msg_info]))"

section \<open>Example data\<close>

text \<open>
  A method returned, and what it returned is falsy: \<open>False\<close>, \<open>None\<close>, a zero or an empty
  string.
\<close>

definition falsy :: "error + pyval \<Rightarrow> bool" where
  "falsy r = (case r of Inl e \<Rightarrow> False | Inr v \<Rightarrow> \<not> truthy v)"

definition midnight :: "date \<Rightarrow> datetime" where
  "midnight d = \<lparr>year = year d, month = month d, day = day d,
                 hour = 0, minute = 0, second = 0, microsecond = 0\<rparr>"

text \<open>A donor born on 1995-03-10, and the requester of a request for her blood group.\<close>

definition example_donor :: user where
  "example_donor =
     \<lparr>user_id = 1, full_name = ''Asha Rahman'', email = ''asha@example.org'',
      phone_number = None,
      date_of_birth = Some \<lparr>year = 1995, month = 3, day = 10\<rparr>,
      gender = ''F'', address = ''Dhaka'', blood_group = ''O+'',
      weight = Some (Finite 60), last_donation_date = None, medical_conditions = [],
      is_email_verified = True, is_donor = True, is_recipient = True,
      is_available_for_donation = True, email_verification_token = 7,
      email_verification_sent_at = None,
      created_at = midnight \<lparr>year = 2025, month = 1, day = 1\<rparr>,
      updated_at = midnight \<lparr>year = 2025, month = 1, day = 1\<rparr>\<rparr>"

definition example_requester :: user where
  "example_requester = example_donor\<lparr>user_id := 2, full_name := ''Biplob Das'',
     email := ''biplob@example.org'', email_verification_token := 8\<rparr>"

text \<open>Noon of 2025-06-15; the request is needed by noon of the next day.\<close>

definition example_now :: datetime where
  "example_now = \<lparr>year = 2025, month = 6, day = 15,
                   hour = 12, minute = 0, second = 0, microsecond = 0\<rparr>"

definition example_request :: blood_request where
  "example_request =
     \<lparr>request_id = 10, requester = example_requester, patient_name = ''Patient'',
      blood_group_needed = ''O+'', units_needed = 1, urgency = ''MEDIUM'',
      needed_by_date = Some (example_now\<lparr>day := 16\<rparr>), status = ''ACTIVE'',
      is_public = True\<rparr>"

text \<open>A database with the two users and the request, and no response yet; a posted form.\<close>

definition example_db :: database where
  "example_db = \<lparr>users = [example_donor, example_requester],
                  blood_requests = [example_request], responses = []\<rparr>"

definition example_form :: response_form where
  "example_form = \<lparr>form_response = ''ACCEPTED'', form_message = ''I can come today'',
                    form_donor_phone = ''+8801700000000'',
                    form_preferred_contact_time = ''9 AM - 5 PM''\<rparr>"

text \<open>The example donor before she verified her email.\<close>

definition example_unverified :: user where
  "example_unverified = example_donor\<lparr>is_email_verified := False\<rparr>"

text \<open>
  The day after, at the same time of day: \<open>t + timedelta(days=1)\<close>, for a date before
  9999-12-31.
\<close>

definition tomorrow :: "datetime \<Rightarrow> datetime" where
  "tomorrow t =
     (if day t < days_in_month (year t) (month t) then t\<lparr>day := day t + 1\<rparr>
      else if month t < 12 then t\<lparr>month := month t + 1, day := 1\<rparr>
      else t\<lparr>year := year t + 1, month := 1, day := 1\<rparr>)"

section \<open>Properties\<close>

subsection \<open>The methods return\<close>

lemma can_donate_total: "\<exists>b. can_donate u today = Inr b"
  by (cases "last_donation_date u") (auto simp add: can_donate_def bind_e_def operand_def Let_def)

lemma get_age_total: "\<exists>a. get_age u today = Inr a"
  by (cases "date_of_birth u") (simp_all add: get_age_def bind_e_def attr_of_def)

lemma is_expired_total: "\<exists>b. is_expired r now = Inr b"
  by (cases "needed_by_date r") (auto simp add: is_expired_def bind_e_def operand_def)

text \<open>The value of \<open>is_eligible_donor\<close>, branch by branch.\<close>

lemma is_eligible_donor_cases:
  assumes "get_age u today = Inr age" and "can_donate u today = Inr b"
  shows "is_eligible_donor u today =
    (case age of None \<Rightarrow> Inr (PyBool False)
     | Some a \<Rightarrow>
        if a = 0 then Inr (PyBool False)
        else if \<not> (18 \<le> a \<and> a \<le> 65) then Inr (PyBool False)
        else (case weight u of None \<Rightarrow> Inr PyNone
              | Some w \<Rightarrow>
                  if \<not> float_truthy w then Inr (PyFloat w)
                  else if \<not> float_ge w 50 then Inr (PyBool False)
                  else if blood_group u = [] then Inr (PyStr [])
                  else Inr (PyBool b)))"
  using assms
  by (auto simp add: is_eligible_donor_def bind_e_def py_int_opt_def py_and_def operand_def
      py_float_opt_def split: option.splits)

lemma is_eligible_donor_total: "\<exists>v. is_eligible_donor u today = Inr v"
proof -
  obtain age where age: "get_age u today = Inr age" using get_age_total by blast
  obtain b where b: "can_donate u today = Inr b" using can_donate_total by blast
  show ?thesis
    unfolding is_eligible_donor_cases [OF age b] by (simp split: option.splits)
qed

lemma float_ge_zero: "float_ge w 50 \<Longrightarrow> float_truthy w"
  by (cases w) auto

lemma float_lt_not_ge: "float_lt w 50 \<Longrightarrow> \<not> float_ge w 50"
  by (cases w) auto

text \<open>When \<open>is_eligible_donor\<close> is truthy, and that its only truthy value is \<open>True\<close>.\<close>

lemma is_eligible_donor_holds:
  "holds (is_eligible_donor u today) \<longleftrightarrow>
     (\<exists>a. get_age u today = Inr (Some a) \<and> 18 \<le> a \<and> a \<le> 65) \<and>
     (\<exists>w. weight u = Some w \<and> float_ge w 50) \<and>
     blood_group u \<noteq> [] \<and>
     can_donate u today = Inr True"
proof -
  obtain age where age: "get_age u today = Inr age" using get_age_total by blast
  obtain b where b: "can_donate u today = Inr b" using can_donate_total by blast
  show ?thesis
    unfolding is_eligible_donor_cases [OF age b] using age b
    by (auto simp add: holds_def float_ge_zero split: option.splits)
qed

lemma is_eligible_donor_True:
  "holds (is_eligible_donor u today) \<longleftrightarrow> is_eligible_donor u today = Inr (PyBool True)"
proof -
  obtain age where age: "get_age u today = Inr age" using get_age_total by blast
  obtain b where b: "can_donate u today = Inr b" using can_donate_total by blast
  show ?thesis
    unfolding is_eligible_donor_cases [OF age b]
    by (auto simp add: holds_def split: option.splits)
qed

lemma not_holds_falsy: "r = Inr v \<Longrightarrow> falsy r \<longleftrightarrow> \<not> holds r"
  by (simp add: falsy_def holds_def)

lemma is_eligible_donor_falsy:
  "falsy (is_eligible_donor u today) \<longleftrightarrow> \<not> holds (is_eligible_donor u today)"
  using is_eligible_donor_total [of u today] not_holds_falsy by blast

text \<open>The value of \<open>can_accept\<close> for a logged-in user, branch by branch.\<close>

lemma can_accept_cases:
  assumes "is_eligible_donor u (date_of now) = Inr v" and "is_expired r now = Inr e"
  shows "can_accept r (Member u) now =
    (if user_id u = user_id (requester r) then Inr (PyBool False)
     else if \<not> truthy v then Inr v
     else if blood_group u \<noteq> blood_group_needed r then Inr (PyBool False)
     else if status r \<noteq> ''ACTIVE'' then Inr (PyBool False)
     else Inr (PyBool (\<not> e)))"
  using assms by (simp add: py_and_def bind_e_def)

lemma can_accept_total: "\<exists>v. can_accept r p now = Inr v"
proof (cases p)
  case (Member u)
  obtain v where v: "is_eligible_donor u (date_of now) = Inr v"
    using is_eligible_donor_total by blast
  obtain e where e: "is_expired r now = Inr e" using is_expired_total by blast
  show ?thesis unfolding Member can_accept_cases [OF v e] by simp
qed simp_all

lemma can_accept_holds:
  "holds (can_accept r p now) \<longleftrightarrow>
     (\<exists>u. p = Member u \<and> user_id u \<noteq> user_id (requester r) \<and>
          holds (is_eligible_donor u (date_of now)) \<and>
          blood_group u = blood_group_needed r \<and> status r = ''ACTIVE'' \<and>
          is_expired r now = Inr False)"
proof (cases p)
  case (Member u)
  obtain v where v: "is_eligible_donor u (date_of now) = Inr v"
    using is_eligible_donor_total by blast
  obtain e where e: "is_expired r now = Inr e" using is_expired_total by blast
  show ?thesis unfolding Member can_accept_cases [OF v e] using v e
    by (auto simp add: holds_def)
qed (simp_all add: holds_def)

lemma can_accept_True:
  "holds (can_accept r p now) \<longleftrightarrow> can_accept r p now = Inr (PyBool True)"
proof (cases p)
  case (Member u)
  obtain v where v: "is_eligible_donor u (date_of now) = Inr v"
    using is_eligible_donor_total by blast
  obtain e where e: "is_expired r now = Inr e" using is_expired_total by blast
  show ?thesis unfolding Member can_accept_cases [OF v e]
    by (auto simp add: holds_def)
qed (simp_all add: holds_def)

lemma can_accept_falsy: "falsy (can_accept r p now) \<longleftrightarrow> \<not> holds (can_accept r p now)"
  using can_accept_total [of r p now] not_holds_falsy by blast

text \<open>The example donor and the example request, evaluated.\<close>

lemma example_age: "get_age example_donor (date_of example_now) = Inr (Some 30)"
  by (simp add: get_age_def example_donor_def example_now_def date_of_def bind_e_def
      attr_of_def)

lemma example_can_donate: "can_donate example_donor (date_of example_now) = Inr True"
  by (simp add: can_donate_def example_donor_def)

lemma example_not_expired: "is_expired example_request example_now = Inr False"
  by (simp add: is_expired_def example_request_def example_now_def bind_e_def operand_def
      datetime_gt_def datetime_key_def)

lemma example_eligible: "holds (is_eligible_donor example_donor (date_of example_now))"
  unfolding is_eligible_donor_holds using example_age example_can_donate
  by (simp add: example_donor_def)

subsection \<open>Cooldown\<close>

text \<open>
  C2. \<open>can_donate\<close> returns \<open>False\<close> for a user who is not a donor or not available;
  otherwise \<open>True\<close> when there is no last donation; otherwise \<open>True\<close> exactly when today is
  at least 90 days after the last donation. A last donation 89 days ago gives \<open>False\<close>, one
  90 days ago gives \<open>True\<close>.
\<close>

theorem can_donate_spec:
  "(\<not> is_donor u \<or> \<not> is_available_for_donation u \<longrightarrow> can_donate u today = Inr False) \<and>
   (is_donor u \<and> is_available_for_donation u \<and> last_donation_date u = None \<longrightarrow>
      can_donate u today = Inr True) \<and>
   (\<forall>last. is_donor u \<and> is_available_for_donation u \<and> last_donation_date u = Some last \<longrightarrow>
      can_donate u today = Inr (toordinal today - toordinal last \<ge> 90)) \<and>
   (\<forall>last. is_donor u \<and> is_available_for_donation u \<and> last_donation_date u = Some last \<and>
      toordinal today - toordinal last = 89 \<longrightarrow> can_donate u today = Inr False) \<and>
   (\<forall>last. is_donor u \<and> is_available_for_donation u \<and> last_donation_date u = Some last \<and>
      toordinal today - toordinal last = 90 \<longrightarrow> can_donate u today = Inr True)"
  by (auto simp add: can_donate_def bind_e_def operand_def Let_def)

text \<open>
  On 2025-06-15 the example donor cannot donate after a donation on 2025-03-18, 89 days
  before, and can after one on 2025-03-17, 90 days before.
\<close>

theorem can_donate_spec_witness:
  "toordinal (date_of example_now) - toordinal \<lparr>year = 2025, month = 3, day = 18\<rparr> = 89 \<and>
   can_donate (example_donor\<lparr>last_donation_date := Some \<lparr>year = 2025, month = 3, day = 18\<rparr>\<rparr>)
     (date_of example_now) = Inr False \<and>
   toordinal (date_of example_now) - toordinal \<lparr>year = 2025, month = 3, day = 17\<rparr> = 90 \<and>
   can_donate (example_donor\<lparr>last_donation_date := Some \<lparr>year = 2025, month = 3, day = 17\<rparr>\<rparr>)
     (date_of example_now) = Inr True \<and>
   can_donate example_donor (date_of example_now) = Inr True \<and>
   can_donate (example_donor\<lparr>is_donor := False\<rparr>) (date_of example_now) = Inr False"
proof -
  let ?today = "date_of example_now"
  let ?d89 = "\<lparr>year = 2025, month = 3, day = 18\<rparr>"
  let ?d90 = "\<lparr>year = 2025, month = 3, day = 17\<rparr>"
  have o89: "toordinal ?today - toordinal ?d89 = 89"
    by (simp add: toordinal_def days_before_year_def days_before_month_def
        DAYS_BEFORE_MONTH_def is_leap_def date_of_def example_now_def)
  have o90: "toordinal ?today - toordinal ?d90 = 90"
    by (simp add: toordinal_def days_before_year_def days_before_month_def
        DAYS_BEFORE_MONTH_def is_leap_def date_of_def example_now_def)
  have f: "is_donor example_donor" "is_available_for_donation example_donor"
    "last_donation_date example_donor = None"
    by (simp_all add: example_donor_def)
  have "can_donate (example_donor\<lparr>last_donation_date := Some ?d89\<rparr>) ?today = Inr False"
    using can_donate_spec [of "example_donor\<lparr>last_donation_date := Some ?d89\<rparr>" ?today] o89 f
    by simp
  moreover have "can_donate (example_donor\<lparr>last_donation_date := Some ?d90\<rparr>) ?today = Inr True"
    using can_donate_spec [of "example_donor\<lparr>last_donation_date := Some ?d90\<rparr>" ?today] o90 f
    by simp
  moreover have "can_donate example_donor ?today = Inr True"
    using can_donate_spec [of example_donor ?today] f by simp
  moreover have "can_donate (example_donor\<lparr>is_donor := False\<rparr>) ?today = Inr False"
    using can_donate_spec [of "example_donor\<lparr>is_donor := False\<rparr>" ?today] by simp
  ultimately show ?thesis using o89 o90 by simp
qed

subsection \<open>Eligibility\<close>

text \<open>
  C1. \<open>is_eligible_donor\<close> returns \<open>True\<close> if and only if the age computed from the date of
  birth is between 18 and 65, the weight is set and at least 50, the blood group is not
  empty and \<open>can_donate\<close> returns \<open>True\<close>; in every other case it returns a falsy value.
  In particular it returns a falsy value for every user whose weight is below 50.
\<close>

theorem is_eligible_donor_spec:
  "(is_eligible_donor u today = Inr (PyBool True) \<longleftrightarrow>
      (\<exists>a. get_age u today = Inr (Some a) \<and> 18 \<le> a \<and> a \<le> 65) \<and>
      (\<exists>w. weight u = Some w \<and> float_ge w 50) \<and>
      blood_group u \<noteq> [] \<and>
      can_donate u today = Inr True) \<and>
   (is_eligible_donor u today \<noteq> Inr (PyBool True) \<longrightarrow> falsy (is_eligible_donor u today)) \<and>
   (\<forall>w. weight u = Some w \<and> float_lt w 50 \<longrightarrow> falsy (is_eligible_donor u today))"
proof (intro conjI allI impI)
  show "is_eligible_donor u today = Inr (PyBool True) \<longleftrightarrow>
      (\<exists>a. get_age u today = Inr (Some a) \<and> 18 \<le> a \<and> a \<le> 65) \<and>
      (\<exists>w. weight u = Some w \<and> float_ge w 50) \<and>
      blood_group u \<noteq> [] \<and>
      can_donate u today = Inr True"
    using is_eligible_donor_holds [of u today] is_eligible_donor_True [of u today] by simp
next
  assume "is_eligible_donor u today \<noteq> Inr (PyBool True)"
  then show "falsy (is_eligible_donor u today)"
    using is_eligible_donor_True [of u today] is_eligible_donor_falsy [of u today] by simp
next
  fix w
  assume "weight u = Some w \<and> float_lt w 50"
  then have "\<not> (\<exists>w. weight u = Some w \<and> float_ge w 50)"
    using float_lt_not_ge by auto
  then have "\<not> holds (is_eligible_donor u today)"
    using is_eligible_donor_holds [of u today] by blast
  then show "falsy (is_eligible_donor u today)"
    using is_eligible_donor_falsy [of u today] by simp
qed

text \<open>
  The example donor, 30 years old and of 60 kg, is eligible on 2025-06-15; at 49.5 kg she
  is not.
\<close>

theorem is_eligible_donor_spec_witness:
  "get_age example_donor (date_of example_now) = Inr (Some 30) \<and>
   weight example_donor = Some (Finite 60) \<and>
   is_eligible_donor example_donor (date_of example_now) = Inr (PyBool True) \<and>
   float_lt (Finite (99 / 2)) 50 \<and>
   falsy (is_eligible_donor (example_donor\<lparr>weight := Some (Finite (99 / 2))\<rparr>)
     (date_of example_now))"
proof -
  let ?today = "date_of example_now"
  let ?light = "example_donor\<lparr>weight := Some (Finite (99 / 2))\<rparr>"
  have w: "weight example_donor = Some (Finite 60)" "blood_group example_donor \<noteq> []"
    by (simp_all add: example_donor_def)
  have "is_eligible_donor example_donor ?today = Inr (PyBool True)"
    using is_eligible_donor_spec [of example_donor ?today] example_age example_can_donate w
    by simp
  moreover have "falsy (is_eligible_donor ?light ?today)"
    using is_eligible_donor_spec [of ?light ?today] by simp
  ultimately show ?thesis using example_age w by simp
qed

subsection \<open>Missing data\<close>

text \<open>
  C7, as the specification has it: for every user with no weight, \<open>is_eligible_donor\<close>
  returns \<open>False\<close>. It fails: when the age is between 18 and 65 the chain stops at
  \<open>self.weight\<close> and returns it, and it is \<open>None\<close>. Here the example donor, 30 years old,
  has no weight on record.
\<close>

theorem no_weight_returns_None:
  "weight (example_donor\<lparr>weight := None\<rparr>) = None \<and>
   is_eligible_donor (example_donor\<lparr>weight := None\<rparr>) (date_of example_now) = Inr PyNone \<and>
   is_eligible_donor (example_donor\<lparr>weight := None\<rparr>) (date_of example_now)
     \<noteq> Inr (PyBool False)"
proof -
  let ?u = "example_donor\<lparr>weight := None\<rparr>"
  let ?today = "date_of example_now"
  have age: "get_age ?u ?today = Inr (Some 30)"
    by (simp add: get_age_def example_donor_def example_now_def date_of_def bind_e_def
        attr_of_def)
  have cd: "can_donate ?u ?today = Inr True"
    by (simp add: can_donate_def example_donor_def)
  have v: "is_eligible_donor ?u ?today = Inr PyNone"
    unfolding is_eligible_donor_cases [OF age cd] by simp
  then have "is_eligible_donor ?u ?today \<noteq> Inr (PyBool False)" by simp
  then show ?thesis using v by simp
qed

text \<open>
  C7, amended. Without a date of birth \<open>get_age\<close> returns \<open>None\<close> and \<open>is_eligible_donor\<close>
  returns \<open>False\<close>; without a weight \<open>is_eligible_donor\<close> returns a falsy value: \<open>None\<close>
  when the age is between 18 and 65, \<open>False\<close> otherwise; and \<open>get_age\<close>, \<open>can_donate\<close>,
  \<open>is_eligible_donor\<close> and \<open>is_expired\<close> return a value, raising nothing, whatever optional
  fields are absent.
\<close>

theorem fail_closed:
  "(date_of_birth u = None \<longrightarrow>
      get_age u today = Inr None \<and> is_eligible_donor u today = Inr (PyBool False)) \<and>
   (weight u = None \<longrightarrow>
      is_eligible_donor u today = Inr (PyBool False) \<or> is_eligible_donor u today = Inr PyNone) \<and>
   (weight u = None \<longrightarrow> falsy (is_eligible_donor u today)) \<and>
   (weight u = None \<longrightarrow>
      is_eligible_donor u today =
        (if \<exists>a. get_age u today = Inr (Some a) \<and> 18 \<le> a \<and> a \<le> 65
         then Inr PyNone else Inr (PyBool False))) \<and>
   (\<exists>a. get_age u today = Inr a) \<and>
   (\<exists>b. can_donate u today = Inr b) \<and>
   (\<exists>v. is_eligible_donor u today = Inr v) \<and>
   (\<exists>b. is_expired r now = Inr b)"
proof -
  obtain age where age: "get_age u today = Inr age" using get_age_total by blast
  obtain b where b: "can_donate u today = Inr b" using can_donate_total by blast
  have 1: "date_of_birth u = None \<longrightarrow>
      get_age u today = Inr None \<and> is_eligible_donor u today = Inr (PyBool False)"
    by (simp add: get_age_def is_eligible_donor_def bind_e_def py_int_opt_def)
  have 2: "weight u = None \<longrightarrow>
      is_eligible_donor u today = Inr (PyBool False) \<or> is_eligible_donor u today = Inr PyNone"
    unfolding is_eligible_donor_cases [OF age b] by (simp split: option.splits)
  have 3: "weight u = None \<longrightarrow> falsy (is_eligible_donor u today)"
    using 2 by (auto simp add: falsy_def)
  have 4: "weight u = None \<longrightarrow>
      is_eligible_donor u today =
        (if \<exists>a. get_age u today = Inr (Some a) \<and> 18 \<le> a \<and> a \<le> 65
         then Inr PyNone else Inr (PyBool False))"
    unfolding is_eligible_donor_cases [OF age b] age by (auto split: option.splits)
  show ?thesis
    using 1 2 3 4 get_age_total can_donate_total is_eligible_donor_total is_expired_total
    by blast
qed

text \<open>
  The example donor with no date of birth; with no weight, at 30, when the value is
  \<open>None\<close>; and with no weight and born in 2010, at 15, when it is \<open>False\<close>.
\<close>

theorem fail_closed_witness:
  "date_of_birth (example_donor\<lparr>date_of_birth := None\<rparr>) = None \<and>
   get_age (example_donor\<lparr>date_of_birth := None\<rparr>) (date_of example_now) = Inr None \<and>
   is_eligible_donor (example_donor\<lparr>date_of_birth := None\<rparr>) (date_of example_now)
     = Inr (PyBool False) \<and>
   weight (example_donor\<lparr>weight := None\<rparr>) = None \<and>
   falsy (is_eligible_donor (example_donor\<lparr>weight := None\<rparr>) (date_of example_now)) \<and>
   is_eligible_donor (example_donor\<lparr>weight := None\<rparr>) (date_of example_now) = Inr PyNone \<and>
   is_eligible_donor
     (example_donor\<lparr>weight := None,
        date_of_birth := Some \<lparr>year = 2010, month = 3, day = 10\<rparr>\<rparr>)
     (date_of example_now) = Inr (PyBool False)"
proof -
  let ?today = "date_of example_now"
  let ?nodob = "example_donor\<lparr>date_of_birth := None\<rparr>"
  let ?now = "example_donor\<lparr>weight := None\<rparr>"
  let ?young = "example_donor\<lparr>weight := None,
      date_of_birth := Some \<lparr>year = 2010, month = 3, day = 10\<rparr>\<rparr>"
  have a30: "get_age ?now ?today = Inr (Some 30)"
    by (simp add: get_age_def example_donor_def example_now_def date_of_def bind_e_def
        attr_of_def)
  have a15: "get_age ?young ?today = Inr (Some 15)"
    by (simp add: get_age_def example_now_def date_of_def bind_e_def attr_of_def)
  have d: "date_of_birth ?nodob = None" and w: "weight ?now = None" "weight ?young = None"
    by simp_all
  have 1: "get_age ?nodob ?today = Inr None \<and>
      is_eligible_donor ?nodob ?today = Inr (PyBool False)"
    using fail_closed [of ?nodob ?today] d by blast
  have 2: "falsy (is_eligible_donor ?now ?today)"
    using fail_closed [of ?now ?today] w(1) by blast
  have "is_eligible_donor ?now ?today =
      (if \<exists>a. get_age ?now ?today = Inr (Some a) \<and> 18 \<le> a \<and> a \<le> 65
       then Inr PyNone else Inr (PyBool False))"
    using fail_closed [of ?now ?today] w(1) by blast
  then have 3: "is_eligible_donor ?now ?today = Inr PyNone"
    unfolding a30 by simp
  have "is_eligible_donor ?young ?today =
      (if \<exists>a. get_age ?young ?today = Inr (Some a) \<and> 18 \<le> a \<and> a \<le> 65
       then Inr PyNone else Inr (PyBool False))"
    using fail_closed [of ?young ?today] w(2) by blast
  then have 4: "is_eligible_donor ?young ?today = Inr (PyBool False)"
    unfolding a15 by simp
  show ?thesis using d w(1) 1 2 3 4 by (intro conjI) simp_all
qed

subsection \<open>Accepting a request\<close>

text \<open>
  C3. \<open>can_accept\<close> returns \<open>True\<close> if and only if the user is present and authenticated,
  is not the requester, is an eligible donor, has the blood group the request needs, the
  request's status is \<open>'ACTIVE'\<close> and the request is not expired; in every other case it
  returns a falsy value. So it is falsy whenever the status is not \<open>'ACTIVE'\<close> or the
  request is expired, whatever the blood groups are.
\<close>

theorem can_accept_spec:
  "(can_accept r p now = Inr (PyBool True) \<longleftrightarrow>
      (\<exists>u. p = Member u \<and> user_id u \<noteq> user_id (requester r) \<and>
           is_eligible_donor u (date_of now) = Inr (PyBool True) \<and>
           blood_group u = blood_group_needed r \<and> status r = ''ACTIVE'' \<and>
           is_expired r now = Inr False)) \<and>
   (can_accept r p now \<noteq> Inr (PyBool True) \<longrightarrow> falsy (can_accept r p now)) \<and>
   (status r \<noteq> ''ACTIVE'' \<or> is_expired r now = Inr True \<longrightarrow> falsy (can_accept r p now))"
proof (intro conjI impI)
  show "can_accept r p now = Inr (PyBool True) \<longleftrightarrow>
      (\<exists>u. p = Member u \<and> user_id u \<noteq> user_id (requester r) \<and>
           is_eligible_donor u (date_of now) = Inr (PyBool True) \<and>
           blood_group u = blood_group_needed r \<and> status r = ''ACTIVE'' \<and>
           is_expired r now = Inr False)"
    using can_accept_holds [of r p now] can_accept_True [of r p now]
      is_eligible_donor_True by simp
next
  assume "can_accept r p now \<noteq> Inr (PyBool True)"
  then show "falsy (can_accept r p now)"
    using can_accept_True [of r p now] can_accept_falsy [of r p now] by simp
next
  assume "status r \<noteq> ''ACTIVE'' \<or> is_expired r now = Inr True"
  then have "\<not> holds (can_accept r p now)"
    using can_accept_holds [of r p now] by auto
  then show "falsy (can_accept r p now)"
    using can_accept_falsy [of r p now] by simp
qed

text \<open>
  The example donor can accept the example request at noon of 2025-06-15; she cannot
  once it is fulfilled, nor two days later, when it has expired.
\<close>

theorem can_accept_spec_witness:
  "can_accept example_request (Member example_donor) example_now = Inr (PyBool True) \<and>
   status (example_request\<lparr>status := ''FULFILLED''\<rparr>) \<noteq> ''ACTIVE'' \<and>
   falsy (can_accept (example_request\<lparr>status := ''FULFILLED''\<rparr>) (Member example_donor)
     example_now) \<and>
   is_expired example_request (example_now\<lparr>day := 17\<rparr>) = Inr True \<and>
   falsy (can_accept example_request (Member example_donor) (example_now\<lparr>day := 17\<rparr>))"
proof -
  have e: "is_eligible_donor example_donor (date_of example_now) = Inr (PyBool True)"
    using example_eligible is_eligible_donor_True by simp
  have f: "user_id example_donor \<noteq> user_id (requester example_request)"
    "blood_group example_donor = blood_group_needed example_request"
    "status example_request = ''ACTIVE''"
    by (simp_all add: example_donor_def example_request_def example_requester_def)
  have x: "is_expired example_request (example_now\<lparr>day := 17\<rparr>) = Inr True"
    by (simp add: is_expired_def example_request_def example_now_def bind_e_def operand_def
        datetime_gt_def datetime_key_def)
  have "can_accept example_request (Member example_donor) example_now = Inr (PyBool True)"
    using can_accept_spec [of example_request "Member example_donor" example_now]
      e f example_not_expired by simp
  moreover have "falsy (can_accept (example_request\<lparr>status := ''FULFILLED''\<rparr>)
      (Member example_donor) example_now)"
    using can_accept_spec [of "example_request\<lparr>status := ''FULFILLED''\<rparr>"
        "Member example_donor" example_now] by simp
  moreover have "falsy (can_accept example_request (Member example_donor)
      (example_now\<lparr>day := 17\<rparr>))"
    using can_accept_spec [of example_request "Member example_donor"
        "example_now\<lparr>day := 17\<rparr>"] x by simp
  ultimately show ?thesis using x by simp
qed

text \<open>
  C9. A request with no \<open>needed_by_date\<close> is never expired, and \<open>can_accept\<close> then depends
  on the other conditions only.
\<close>

theorem no_date_never_expired:
  "needed_by_date r = None \<longrightarrow>
     is_expired r now = Inr False \<and>
     (can_accept r p now = Inr (PyBool True) \<longleftrightarrow>
        (\<exists>u. p = Member u \<and> user_id u \<noteq> user_id (requester r) \<and>
             is_eligible_donor u (date_of now) = Inr (PyBool True) \<and>
             blood_group u = blood_group_needed r \<and> status r = ''ACTIVE''))"
proof
  assume n: "needed_by_date r = None"
  then have x: "is_expired r now = Inr False"
    by (simp add: is_expired_def)
  show "is_expired r now = Inr False \<and>
     (can_accept r p now = Inr (PyBool True) \<longleftrightarrow>
        (\<exists>u. p = Member u \<and> user_id u \<noteq> user_id (requester r) \<and>
             is_eligible_donor u (date_of now) = Inr (PyBool True) \<and>
             blood_group u = blood_group_needed r \<and> status r = ''ACTIVE''))"
    using x can_accept_holds [of r p now] can_accept_True [of r p now]
      is_eligible_donor_True by simp
qed

text \<open>The example request without its date, a century later.\<close>

theorem no_date_never_expired_witness:
  "needed_by_date (example_request\<lparr>needed_by_date := None\<rparr>) = None \<and>
   is_expired (example_request\<lparr>needed_by_date := None\<rparr>) (example_now\<lparr>year := 2125\<rparr>)
     = Inr False"
  using no_date_never_expired [of "example_request\<lparr>needed_by_date := None\<rparr>"
      "example_now\<lparr>year := 2125\<rparr>"]
  by simp

subsection \<open>Compatible donors\<close>

text \<open>The fields of the examples that the query reads.\<close>

lemma example_donor_fields:
  "user_id example_donor = 1" "blood_group example_donor = ''O+''"
  "is_donor example_donor" "is_available_for_donation example_donor"
  "is_email_verified example_donor" "weight example_donor = Some (Finite 60)"
  "last_donation_date example_donor = None"
  by (simp_all add: example_donor_def)

lemma example_requester_fields:
  "user_id example_requester = 2" "blood_group example_requester = ''O+''"
  "is_donor example_requester" "is_available_for_donation example_requester"
  "is_email_verified example_requester"
  by (simp_all add: example_requester_def example_donor_def)

lemma example_request_fields:
  "requester example_request = example_requester"
  "blood_group_needed example_request = ''O+''" "status example_request = ''ACTIVE''"
  by (simp_all add: example_request_def)

lemma example_compatible:
  "get_compatible_donors [example_donor, example_requester] example_request = [example_donor]"
  by (simp add: get_compatible_donors_def example_donor_fields example_requester_fields
      example_request_fields)

text \<open>
  C4. \<open>get_compatible_donors\<close> returns exactly the users who have the blood group the
  request needs, are donors, are available for donation and have a verified email,
  the requester excluded; so the requester is never in the result.
\<close>

theorem get_compatible_donors_spec:
  "set (get_compatible_donors us r) =
     {u \<in> set us. blood_group u = blood_group_needed r \<and> is_donor u \<and>
        is_available_for_donation u \<and> is_email_verified u \<and>
        user_id u \<noteq> user_id (requester r)} \<and>
   requester r \<notin> set (get_compatible_donors us r) \<and>
   (\<forall>u \<in> set (get_compatible_donors us r). user_id u \<noteq> user_id (requester r))"
  by (auto simp add: get_compatible_donors_def)

text \<open>Of the example donor and the example requester, only the donor is compatible.\<close>

theorem get_compatible_donors_spec_witness:
  "example_donor \<in> set (get_compatible_donors [example_donor, example_requester] example_request) \<and>
   user_id example_donor \<noteq> user_id (requester example_request) \<and>
   requester example_request
     \<notin> set (get_compatible_donors [example_donor, example_requester] example_request)"
proof -
  let ?found = "get_compatible_donors [example_donor, example_requester] example_request"
  note spec = get_compatible_donors_spec [of "[example_donor, example_requester]" example_request]
  have m: "example_donor \<in> set ?found"
    by (simp only: example_compatible list.set insertI1)
  have "\<forall>u \<in> set ?found. user_id u \<noteq> user_id (requester example_request)"
    using spec by (rule conjunct2 [THEN conjunct2])
  then have "user_id example_donor \<noteq> user_id (requester example_request)"
    using m by (rule bspec)
  moreover have "requester example_request \<notin> set ?found"
    using spec by (rule conjunct2 [THEN conjunct1])
  ultimately show ?thesis using m by (intro conjI)
qed

text \<open>
  C5, as the specification has it: every user \<open>get_compatible_donors\<close> returns is an
  eligible donor. It fails: the query tests neither the age, nor the weight, nor the last
  donation. The example donor with no weight on record is returned, and is not eligible.
\<close>

theorem compatible_not_eligible:
  "example_donor\<lparr>weight := None\<rparr>
     \<in> set (get_compatible_donors [example_donor\<lparr>weight := None\<rparr>, example_requester]
              example_request) \<and>
   is_eligible_donor (example_donor\<lparr>weight := None\<rparr>) (date_of example_now) = Inr PyNone"
proof -
  let ?u = "example_donor\<lparr>weight := None\<rparr>"
  let ?today = "date_of example_now"
  have "get_compatible_donors [?u, example_requester] example_request = [?u]"
    by (simp add: get_compatible_donors_def example_donor_fields example_requester_fields
        example_request_fields)
  then have m: "?u \<in> set (get_compatible_donors [?u, example_requester] example_request)"
    by (simp only: list.set insertI1)
  have age: "get_age ?u ?today = Inr (Some 30)"
    by (simp add: get_age_def example_donor_def example_now_def date_of_def bind_e_def
        attr_of_def)
  have cd: "can_donate ?u ?today = Inr True"
    by (simp add: can_donate_def example_donor_def)
  have "is_eligible_donor ?u ?today = Inr PyNone"
    unfolding is_eligible_donor_cases [OF age cd] by simp
  then show ?thesis using m by (intro conjI)
qed

text \<open>
  C5, amended: every user \<open>get_compatible_donors\<close> returns has the blood group needed, is a
  donor, is available, has a verified email and is not the requester; such a user is an
  eligible donor if and only if, besides, the age is between 18 and 65, the weight is set
  and at least 50, the blood group needed is not empty and the last donation, if any, is
  at least 90 days old.
\<close>

theorem compatible_donor_eligibility:
  "\<forall>u \<in> set (get_compatible_donors us r).
     blood_group u = blood_group_needed r \<and> is_donor u \<and> is_available_for_donation u \<and>
     is_email_verified u \<and> user_id u \<noteq> user_id (requester r) \<and>
     (is_eligible_donor u today = Inr (PyBool True) \<longleftrightarrow>
        (\<exists>a. get_age u today = Inr (Some a) \<and> 18 \<le> a \<and> a \<le> 65) \<and>
        (\<exists>w. weight u = Some w \<and> float_ge w 50) \<and>
        blood_group_needed r \<noteq> [] \<and>
        (\<forall>last. last_donation_date u = Some last \<longrightarrow>
           90 \<le> toordinal today - toordinal last))"
proof
  fix u
  assume "u \<in> set (get_compatible_donors us r)"
  then have f: "blood_group u = blood_group_needed r" "is_donor u"
    "is_available_for_donation u" "is_email_verified u"
    "user_id u \<noteq> user_id (requester r)"
    by (auto simp add: get_compatible_donors_def)
  have c: "can_donate u today = Inr True \<longleftrightarrow>
      (\<forall>last. last_donation_date u = Some last \<longrightarrow> 90 \<le> toordinal today - toordinal last)"
    using f by (cases "last_donation_date u")
      (simp_all add: can_donate_def bind_e_def operand_def Let_def)
  have e: "is_eligible_donor u today = Inr (PyBool True) \<longleftrightarrow>
        (\<exists>a. get_age u today = Inr (Some a) \<and> 18 \<le> a \<and> a \<le> 65) \<and>
        (\<exists>w. weight u = Some w \<and> float_ge w 50) \<and>
        blood_group_needed r \<noteq> [] \<and>
        (\<forall>last. last_donation_date u = Some last \<longrightarrow>
           90 \<le> toordinal today - toordinal last)"
    unfolding is_eligible_donor_True [symmetric] is_eligible_donor_holds c f(1) ..
  show "blood_group u = blood_group_needed r \<and> is_donor u \<and> is_available_for_donation u \<and>
     is_email_verified u \<and> user_id u \<noteq> user_id (requester r) \<and>
     (is_eligible_donor u today = Inr (PyBool True) \<longleftrightarrow>
        (\<exists>a. get_age u today = Inr (Some a) \<and> 18 \<le> a \<and> a \<le> 65) \<and>
        (\<exists>w. weight u = Some w \<and> float_ge w 50) \<and>
        blood_group_needed r \<noteq> [] \<and>
        (\<forall>last. last_donation_date u = Some last \<longrightarrow>
           90 \<le> toordinal today - toordinal last))"
    using f e by (intro conjI)
qed

text \<open>The example donor is returned for the example request, and is eligible.\<close>

theorem compatible_donor_eligibility_witness:
  "example_donor \<in> set (get_compatible_donors [example_donor, example_requester] example_request) \<and>
   is_donor example_donor \<and> is_email_verified example_donor \<and>
   last_donation_date example_donor = None \<and>
   is_eligible_donor example_donor (date_of example_now) = Inr (PyBool True)"
proof -
  let ?found = "get_compatible_donors [example_donor, example_requester] example_request"
  let ?today = "date_of example_now"
  have m: "example_donor \<in> set ?found"
    by (simp only: example_compatible list.set insertI1)
  note spec = compatible_donor_eligibility [of "[example_donor, example_requester]"
      example_request ?today, THEN bspec, OF m]
  have d: "is_donor example_donor" "is_email_verified example_donor"
    using spec by blast+
  have "(\<exists>a. get_age example_donor ?today = Inr (Some a) \<and> 18 \<le> a \<and> a \<le> 65) \<and>
        (\<exists>w. weight example_donor = Some w \<and> float_ge w 50) \<and>
        blood_group_needed example_request \<noteq> [] \<and>
        (\<forall>last. last_donation_date example_donor = Some last \<longrightarrow>
           90 \<le> toordinal ?today - toordinal last)"
    using example_age by (simp add: example_donor_fields example_request_fields)
  then have "is_eligible_donor example_donor ?today = Inr (PyBool True)"
    using spec by blast
  then show ?thesis using m d example_donor_fields(7) by (intro conjI)
qed

subsection \<open>One response per donor and request\<close>

lemma insert_response_unique:
  assumes "unique_together table" and "insert_response table row = Inr table'"
  shows "unique_together table'"
proof -
  have new: "\<not> list_ex (\<lambda>x. blood_request_id x = blood_request_id row \<and>
      donor_id x = donor_id row) table" and t: "table' = table @ [row]"
    using assms(2) by (auto simp add: insert_response_def split: if_splits)
  from new have "(blood_request_id row, donor_id row)
      \<notin> set (map (\<lambda>x. (blood_request_id x, donor_id x)) table)"
    by (auto simp add: list_ex_iff)
  then show ?thesis using assms(1) t by (simp add: unique_together_def)
qed

lemma form_valid_unique:
  assumes "unique_together (responses db)"
  shows "unique_together (responses (snd (form_valid db req u form now)))"
  using assms insert_response_unique
  by (auto simp add: form_valid_def Let_def split: sum.splits)

lemma dispatch_unique:
  assumes "unique_together (responses db)"
  shows "unique_together (responses (snd (dispatch db p pk method form now)))"
  using assms form_valid_unique
  by (auto simp add: dispatch_def split: option.splits sum.splits principal.splits)

lemma reachable_unique: "reachable db \<Longrightarrow> unique_together (responses db)"
proof (induction rule: reachable.induct)
  case (initial db)
  then show ?case by (simp add: unique_together_def)
next
  case (view db request_user pk how form now)
  from view.IH show ?case by (rule dispatch_unique)
next
  case (admin_add db row table)
  then show ?case using insert_response_unique by simp
next
  case (admin_delete db keep)
  then show ?case by (simp add: unique_together_def distinct_map_filter)
next
  case (other_tables db us reqs)
  then show ?case by simp
qed

text \<open>The view leaves the database as it is for a user who has responded already.\<close>

lemma dispatch_second:
  assumes "list_ex (\<lambda>x. blood_request_id x = pk \<and> donor_id x = user_id u) (responses db)"
  shows "snd (dispatch db (Member u) pk method form now) = db \<and>
         fst (dispatch db (Member u) pk method form now) \<noteq> Redirect_success"
proof (cases "find (\<lambda>r. request_id r = pk) (blood_requests db)")
  case None
  then show ?thesis by (simp add: dispatch_def)
next
  case (Some req)
  then have "request_id req = pk" by (auto simp add: find_Some_iff)
  then show ?thesis using Some assms
    by (auto simp add: dispatch_def split: sum.splits)
qed

text \<open>The example donor responds to the example request.\<close>

lemma example_can_accept:
  "can_accept example_request (Member example_donor) example_now = Inr (PyBool True)"
  unfolding can_accept_True [symmetric] can_accept_holds
  using example_eligible example_not_expired
  by (simp add: example_donor_fields example_request_fields example_requester_fields)

lemma example_first_response:
  "dispatch example_db (Member example_donor) 10 POST example_form example_now =
     (Redirect_success,
      example_db\<lparr>responses :=
        [\<lparr>blood_request_id = 10, donor_id = 1, response = ''ACCEPTED'',
          message = ''I can come today'', donor_phone = ''+8801700000000'',
          preferred_contact_time = ''9 AM - 5 PM'', responded_at = example_now\<rparr>]\<rparr>)"
proof -
  have f: "find (\<lambda>r. request_id r = 10) (blood_requests example_db) = Some example_request"
    by (simp add: example_db_def example_request_def)
  have v: "is_valid example_form"
    by (simp add: is_valid_def example_form_def RESPONSE_CHOICES_def)
  have id: "request_id example_request = 10"
    by (simp add: example_request_def)
  have r: "responses example_db = []"
    by (simp add: example_db_def)
  have "dispatch example_db (Member example_donor) 10 POST example_form example_now =
      form_valid example_db example_request example_donor example_form example_now"
    by (simp add: dispatch_def f example_can_accept v id r example_donor_fields
        del: can_accept.simps)
  also have "\<dots> =
     (Redirect_success,
      example_db\<lparr>responses :=
        [\<lparr>blood_request_id = 10, donor_id = 1, response = ''ACCEPTED'',
          message = ''I can come today'', donor_phone = ''+8801700000000'',
          preferred_contact_time = ''9 AM - 5 PM'', responded_at = example_now\<rparr>]\<rparr>)"
    by (simp add: form_valid_def insert_response_def r id example_donor_fields
        example_form_def)
  finally show ?thesis .
qed

text \<open>
  C8. In every reachable state no two responses have the same request and the same
  donor; a request to the view keeps it so; and the view creates nothing, and leaves the
  database as it is, for a donor who has a response to the request already.
\<close>

theorem one_response_per_donor:
  "(reachable db \<longrightarrow> unique_together (responses db)) \<and>
   (unique_together (responses db) \<longrightarrow>
      unique_together (responses (snd (dispatch db p pk method form now)))) \<and>
   (list_ex (\<lambda>x. blood_request_id x = pk \<and> donor_id x = user_id u) (responses db) \<longrightarrow>
      snd (dispatch db (Member u) pk method form now) = db \<and>
      fst (dispatch db (Member u) pk method form now) \<noteq> Redirect_success)"
  using reachable_unique dispatch_unique dispatch_second by blast

text \<open>
  The example donor's first response is stored; the state is reachable, its one row is
  unique, and her second request to the view changes nothing.
\<close>

theorem one_response_per_donor_witness:
  "reachable (snd (dispatch example_db (Member example_donor) 10 POST example_form example_now)) \<and>
   length (responses
     (snd (dispatch example_db (Member example_donor) 10 POST example_form example_now))) = 1 \<and>
   unique_together (responses
     (snd (dispatch example_db (Member example_donor) 10 POST example_form example_now))) \<and>
   snd (dispatch
     (snd (dispatch example_db (Member example_donor) 10 POST example_form example_now))
     (Member example_donor) 10 POST example_form example_now)
   = snd (dispatch example_db (Member example_donor) 10 POST example_form example_now)"
proof -
  let ?db1 = "snd (dispatch example_db (Member example_donor) 10 POST example_form example_now)"
  have "reachable example_db"
    by (rule reachable.initial) (simp add: example_db_def)
  then have r: "reachable ?db1" by (rule reachable.view)
  have n: "length (responses ?db1) = 1"
    by (simp add: example_first_response)
  have x: "list_ex (\<lambda>x. blood_request_id x = 10 \<and> donor_id x = user_id example_donor)
      (responses ?db1)"
    by (simp add: example_first_response example_donor_fields)
  note spec = one_response_per_donor [of ?db1 "Member example_donor" 10 POST example_form
      example_now example_donor]
  have "unique_together (responses ?db1)" using spec r by blast
  moreover have "snd (dispatch ?db1 (Member example_donor) 10 POST example_form example_now)
      = ?db1"
    using spec x by blast
  ultimately show ?thesis using r n by (intro conjI)
qed

subsection \<open>Email verification\<close>

lemma objects_get_Inr:
  "objects_get table token = Inr u \<longleftrightarrow>
     filter (\<lambda>x. email_verification_token x = token) table = [u]"
  by (auto simp add: objects_get_def split: list.splits)

lemma filter_map_same:
  "(\<forall>x \<in> set xs. P (f x) = P x) \<Longrightarrow> filter P (map f xs) = map f (filter P xs)"
  by (induction xs) auto

text \<open>With primary keys that are unique, a save rewrites the one row it was read from.\<close>

lemma save_one_row:
  assumes "distinct (map user_id table)" and "u \<in> set table" and "user_id u' = user_id u"
  shows "save table u' now = map (\<lambda>row. if row = u then u'\<lparr>updated_at := now\<rparr> else row) table"
proof -
  have "inj_on user_id (set table)"
    using assms(1) by (simp add: distinct_map)
  then have "\<forall>row \<in> set table. user_id row = user_id u' \<longleftrightarrow> row = u"
    using assms(2,3) by (auto dest: inj_onD)
  then show ?thesis unfolding save_def by (intro map_cong) auto
qed

lemma verify_first:
  assumes "distinct (map user_id table)" and "objects_get table token = Inr u"
    and "\<not> is_email_verified u"
  shows "email_verification_get table token now =
     (Inr (),
      map (\<lambda>row. if row = u then u\<lparr>is_email_verified := True, updated_at := now\<rparr> else row) table,
      [Saved (user_id u), Flashed Msg_success])"
proof -
  have "u \<in> set (filter (\<lambda>x. email_verification_token x = token) table)"
    using assms(2) by (simp add: objects_get_Inr)
  then have m: "u \<in> set table" by simp
  have "save table (u\<lparr>is_email_verified := True\<rparr>) now =
      map (\<lambda>row. if row = u then u\<lparr>is_email_verified := True, updated_at := now\<rparr> else row) table"
    using save_one_row [OF assms(1) m, of "u\<lparr>is_email_verified := True\<rparr>" now] by simp
  then show ?thesis using assms(2,3) by (simp add: email_verification_get_def)
qed

lemma verify_info:
  assumes "objects_get table token = Inr u" and "is_email_verified u"
  shows "email_verification_get table token now = (Inr (), table, [Flashed Msg_info])"
  using assms by (simp add: email_verification_get_def)

lemma verify_again:
  assumes "distinct (map user_id table)" and "objects_get table token = Inr u"
    and "\<not> is_email_verified u"
  shows "email_verification_get (fst (snd (email_verification_get table token now))) token later =
     (Inr (), fst (snd (email_verification_get table token now)), [Flashed Msg_info])"
proof -
  let ?u' = "u\<lparr>is_email_verified := True, updated_at := now\<rparr>"
  let ?f = "\<lambda>row. if row = u then ?u' else row"
  let ?P = "\<lambda>x. email_verification_token x = token"
  have t: "fst (snd (email_verification_get table token now)) = map ?f table"
    using verify_first [OF assms] by simp
  have one: "filter ?P table = [u]"
    using assms(2) by (simp add: objects_get_Inr)
  have "\<forall>x \<in> set table. ?P (?f x) = ?P x" by simp
  then have "filter ?P (map ?f table) = map ?f (filter ?P table)"
    by (rule filter_map_same)
  then have "filter ?P (map ?f table) = [?u']"
    using one by simp
  then have "objects_get (map ?f table) token = Inr ?u'"
    by (simp add: objects_get_Inr)
  then have "email_verification_get (map ?f table) token later =
      (Inr (), map ?f table, [Flashed Msg_info])"
    by (rule verify_info) simp
  then show ?thesis unfolding t .
qed

lemma example_unverified_get:
  "objects_get [example_unverified, example_requester] 7 = Inr example_unverified"
  by (simp add: objects_get_def example_unverified_def example_requester_def
      example_donor_def)

text \<open>
  C10, as the specification has it: on the first verification only \<open>is_email_verified\<close>
  changes. It fails: \<open>updated_at\<close> is declared \<open>auto_now=True\<close>, and the save sets it. Here
  the row was last updated on 2025-01-01 and is verified on 2025-06-15.
\<close>

theorem verification_changes_updated_at:
  "objects_get [example_unverified, example_requester] 7 = Inr example_unverified \<and>
   \<not> is_email_verified example_unverified \<and>
   fst (snd (email_verification_get [example_unverified, example_requester] 7 example_now))
     \<noteq> [example_unverified\<lparr>is_email_verified := True\<rparr>, example_requester]"
proof -
  let ?table = "[example_unverified, example_requester]"
  have n: "\<not> is_email_verified example_unverified"
    by (simp add: example_unverified_def)
  have d: "distinct (map user_id ?table)"
    by (simp add: example_unverified_def example_donor_fields example_requester_fields)
  have "updated_at (hd (fst (snd (email_verification_get ?table 7 example_now)))) = example_now"
    unfolding verify_first [OF d example_unverified_get n] by simp
  moreover have "updated_at (hd [example_unverified\<lparr>is_email_verified := True\<rparr>,
      example_requester]) \<noteq> example_now"
    by (simp add: example_unverified_def example_donor_def example_now_def midnight_def)
  ultimately have "fst (snd (email_verification_get ?table 7 example_now))
     \<noteq> [example_unverified\<lparr>is_email_verified := True\<rparr>, example_requester]"
    by metis
  then show ?thesis using example_unverified_get n by (intro conjI)
qed

text \<open>
  C10, amended: with the token of a user who is verified already, the view changes no
  row and saves nothing; with the token of a user who is not, it saves once, and in the
  table only that user's row changes, in \<open>is_email_verified\<close>, now true, and in
  \<open>updated_at\<close>, now the time of the save; a second request with the token then changes
  nothing, so verifying twice gives the state of verifying once.
\<close>

theorem email_verification_idempotent:
  assumes "distinct (map user_id table)" and "objects_get table token = Inr u"
  shows
    "(is_email_verified u \<longrightarrow>
        email_verification_get table token now = (Inr (), table, [Flashed Msg_info])) \<and>
     (\<not> is_email_verified u \<longrightarrow>
        email_verification_get table token now =
          (Inr (),
           map (\<lambda>row. if row = u then u\<lparr>is_email_verified := True, updated_at := now\<rparr>
                       else row) table,
           [Saved (user_id u), Flashed Msg_success]) \<and>
        email_verification_get (fst (snd (email_verification_get table token now))) token later =
          (Inr (), fst (snd (email_verification_get table token now)), [Flashed Msg_info]))"
  using verify_info [OF assms(2)] verify_first [OF assms] verify_again [OF assms]
  by blast

text \<open>The example donor verifies her email on 2025-06-15, and follows the link again.\<close>

theorem email_verification_idempotent_witness:
  "distinct (map user_id [example_unverified, example_requester]) \<and>
   objects_get [example_unverified, example_requester] 7 = Inr example_unverified \<and>
   fst (snd (email_verification_get [example_unverified, example_requester] 7 example_now)) =
     [example_unverified\<lparr>is_email_verified := True, updated_at := example_now\<rparr>,
      example_requester] \<and>
   email_verification_get
     (fst (snd (email_verification_get [example_unverified, example_requester] 7 example_now)))
     7 (example_now\<lparr>day := 16\<rparr>) =
     (Inr (),
      fst (snd (email_verification_get [example_unverified, example_requester] 7 example_now)),
      [Flashed Msg_info])"
proof -
  let ?table = "[example_unverified, example_requester]"
  have n: "\<not> is_email_verified example_unverified"
    by (simp add: example_unverified_def)
  have d: "distinct (map user_id ?table)"
    by (simp add: example_unverified_def example_donor_fields example_requester_fields)
  have ne: "example_requester \<noteq> example_unverified"
    using d by auto
  note spec = email_verification_idempotent [OF d example_unverified_get,
      of example_now "example_now\<lparr>day := 16\<rparr>"]
  have first: "email_verification_get ?table 7 example_now =
      (Inr (),
       map (\<lambda>row. if row = example_unverified
          then example_unverified\<lparr>is_email_verified := True, updated_at := example_now\<rparr>
          else row) ?table,
       [Saved (user_id example_unverified), Flashed Msg_success])"
    using spec n by blast
  have 1: "fst (snd (email_verification_get ?table 7 example_now)) =
     [example_unverified\<lparr>is_email_verified := True, updated_at := example_now\<rparr>,
      example_requester]"
    unfolding first using ne by simp
  have 2: "email_verification_get (fst (snd (email_verification_get ?table 7 example_now)))
     7 (example_now\<lparr>day := 16\<rparr>) =
     (Inr (), fst (snd (email_verification_get ?table 7 example_now)), [Flashed Msg_info])"
    using spec n by blast
  show ?thesis using d example_unverified_get 1 2 by (intro conjI)
qed

subsection \<open>The example of the specification\<close>

lemma tomorrow_later: "datetime_gt (tomorrow t) t"
  by (simp add: datetime_gt_def datetime_key_def tomorrow_def)

lemma tomorrow_not_expired:
  "needed_by_date r = Some (tomorrow now) \<Longrightarrow> is_expired r now = Inr False"
proof -
  assume n: "needed_by_date r = Some (tomorrow now)"
  have "\<not> datetime_gt now (tomorrow now)"
    by (simp add: datetime_gt_def datetime_key_def tomorrow_def)
  then show ?thesis using n by (simp add: is_expired_def bind_e_def operand_def)
qed

lemma example_tomorrow: "needed_by_date example_request = Some (tomorrow example_now)"
  by (simp add: example_request_def tomorrow_def example_now_def days_in_month_def
      DAYS_IN_MONTH_def)

text \<open>
  C6, as the specification has it: every user of age 30 and weight 60, of blood group
  \<open>'O+'\<close>, available and verified, can accept every active request for \<open>'O+'\<close> that is needed
  by the next day. It fails for the requester: here the example donor has these
  attributes, the request is her own, and \<open>can_accept\<close> returns \<open>False\<close>.
\<close>

theorem requester_cannot_accept:
  "get_age example_donor (date_of example_now) = Inr (Some 30) \<and>
   weight example_donor = Some (Finite 60) \<and> blood_group example_donor = ''O+'' \<and>
   is_available_for_donation example_donor \<and> is_email_verified example_donor \<and>
   blood_group_needed (example_request\<lparr>requester := example_donor\<rparr>) = ''O+'' \<and>
   status (example_request\<lparr>requester := example_donor\<rparr>) = ''ACTIVE'' \<and>
   needed_by_date (example_request\<lparr>requester := example_donor\<rparr>)
     = Some (tomorrow example_now) \<and>
   can_accept (example_request\<lparr>requester := example_donor\<rparr>) (Member example_donor)
     example_now = Inr (PyBool False)"
proof -
  let ?own = "example_request\<lparr>requester := example_donor\<rparr>"
  have r: "blood_group_needed ?own = ''O+''" "status ?own = ''ACTIVE''"
    by (simp_all add: example_request_fields)
  have n: "needed_by_date ?own = Some (tomorrow example_now)"
    using example_tomorrow by simp
  have "can_accept ?own (Member example_donor) example_now = Inr (PyBool False)"
    by (simp add: py_and_def)
  then show ?thesis
    using example_age example_donor_fields(2,4,5,6) r n by (intro conjI)
qed

text \<open>
  C6, amended: every user of age 30 and weight 60, of blood group \<open>'O+'\<close>, available and
  verified, who is a donor, is not the requester and has made no donation in the last 90
  days, can accept every active request for \<open>'O+'\<close> that is needed by the next day:
  \<open>can_accept\<close> returns \<open>True\<close>.
\<close>

theorem can_accept_example:
  assumes "get_age u (date_of now) = Inr (Some 30)" and "weight u = Some (Finite 60)"
    and "blood_group u = ''O+''" and "is_available_for_donation u"
    and "is_email_verified u"
    and "blood_group_needed r = ''O+''" and "status r = ''ACTIVE''"
    and "needed_by_date r = Some (tomorrow now)"
    and "is_donor u" and "user_id u \<noteq> user_id (requester r)"
    and "\<forall>last. last_donation_date u = Some last \<longrightarrow>
           90 \<le> toordinal (date_of now) - toordinal last"
  shows "can_accept r (Member u) now = Inr (PyBool True)"
proof -
  have c: "can_donate u (date_of now) = Inr True"
    using assms(4,9,11) by (cases "last_donation_date u")
      (simp_all add: can_donate_def bind_e_def operand_def Let_def)
  have e: "holds (is_eligible_donor u (date_of now))"
    unfolding is_eligible_donor_holds using assms(1,2,3) c by simp
  have x: "is_expired r now = Inr False"
    using assms(8) by (rule tomorrow_not_expired)
  show ?thesis
    unfolding can_accept_True [symmetric] can_accept_holds
    using e x assms(3,6,7,10) by simp
qed

text \<open>The example donor and the example request, at noon of 2025-06-15.\<close>

theorem can_accept_example_witness:
  "get_age example_donor (date_of example_now) = Inr (Some 30) \<and>
   weight example_donor = Some (Finite 60) \<and>
   needed_by_date example_request = Some (tomorrow example_now) \<and>
   toordinal (tomorrow example_now) = toordinal example_now + 1 \<and>
   user_id example_donor \<noteq> user_id (requester example_request) \<and>
   can_accept example_request (Member example_donor) example_now = Inr (PyBool True)"
proof -
  have i: "user_id example_donor \<noteq> user_id (requester example_request)"
    by (simp add: example_donor_fields example_request_fields example_requester_fields)
  have l: "\<forall>last. last_donation_date example_donor = Some last \<longrightarrow>
      90 \<le> toordinal (date_of example_now) - toordinal last"
    by (simp add: example_donor_fields)
  have o: "toordinal (tomorrow example_now) = toordinal example_now + 1"
    by (simp add: toordinal_def tomorrow_def example_now_def days_in_month_def
        DAYS_IN_MONTH_def)
  have "can_accept example_request (Member example_donor) example_now = Inr (PyBool True)"
    using example_age example_donor_fields(6,2,4,5) example_request_fields(2,3)
      example_tomorrow example_donor_fields(3) i l
    by (rule can_accept_example)
  then show ?thesis
    using example_age example_donor_fields(6) example_tomorrow o i by (intro conjI)
qed

end
